theory Spec2Isabelle
  imports Main "HOL-Library.Sublist"
begin

section \<open>The release script (scripts/release.ts)\<close>

text \<open>
  The script is a straight line of calls into the operating system: shell commands
  run with \<^verbatim>\<open>execSync\<close>, five functions of \<^verbatim>\<open>node:fs\<close>, the clock, and the
  logger. The model keeps the script's own control flow (sequencing, \<^verbatim>\<open>try\<close>/\<^verbatim>\<open>catch\<close>,
  \<^verbatim>\<open>throw\<close>, \<^verbatim>\<open>process.exit\<close>) and string construction, and takes everything the
  operating system and the JavaScript runtime decide as a parameter (\<open>runtime\<close>),
  so that a theorem holds whatever the external tools do. Every call the script makes
  is recorded, with what it returned, in a trace.
\<close>

subsection \<open>JavaScript values the script handles\<close>

text \<open>What a child process did: its exit status (\<open>None\<close> when it was killed by a
  signal or could not be spawned) and its two output streams.\<close>

record child =
  status :: "nat option"
  stdout :: string
  stderr :: string

text \<open>The \<^verbatim>\<open>stdio\<close> option of \<^verbatim>\<open>execSync\<close>: piped to the parent (the default) or
  inherited from it.\<close>

datatype stdio = Pipe | Inherit

record exec_options =
  cwd :: "string option"
  encoding :: "string option"
  stdio :: stdio

text \<open>Thrown values. \<open>ExecError\<close> is the error \<^verbatim>\<open>execSync\<close> throws, with its
  \<^verbatim>\<open>status\<close>, \<^verbatim>\<open>stdout\<close> and \<^verbatim>\<open>stderr\<close> properties; output that was not captured
  (\<^verbatim>\<open>stdio: "inherit"\<close>; JavaScript has \<^verbatim>\<open>null\<close> there) is the empty string.
  \<open>Error\<close> is \<^verbatim>\<open>Error(message)\<close>; \<open>SystemError\<close> is a failure of a \<^verbatim>\<open>node:fs\<close>
  call, with its code.\<close>

datatype js_error =
    ExecError "nat option" string string
  | Error string
  | SystemError string
  | SyntaxError
  | TypeError

text \<open>The result of \<^verbatim>\<open>JSON.parse\<close>. A number carries its text as JavaScript prints
  it; an object carries its members in source order.\<close>

datatype json =
    JNull
  | JBoolean bool
  | JNumber string
  | JString string
  | JArray "json list"
  | JObject "(string \<times> json) list"

text \<open>The broken-down UTC time of a \<^verbatim>\<open>Date\<close>.\<close>

record date =
  year :: int
  month :: nat
  day :: nat
  hours :: nat
  minutes :: nat
  seconds :: nat
  milliseconds :: nat

datatype severity = Error_level | Warn | Info | Debug

text \<open>One entry per call the script makes, with the call's arguments and what the
  call returned. A logger entry keeps the message (the first argument).\<close>

datatype event =
    Log severity string
  | ExecSync string exec_options child
  | MkdtempSync string "string + string"
  | ReadFileSync string "string + string"
  | WriteFileSync string string "string option"
  | CopyFileSync string string "string option"
  | AppendFileSync string string "string option"
  | NewDate date

subsection \<open>The environment\<close>

text \<open>
  Everything outside the script, over a state \<open>'w\<close> of the outside world:
  \<^item> \<open>spawnSync cmd cwd\<close> runs a shell command in a directory;
  \<^item> the five \<^verbatim>\<open>node:fs\<close> functions the script imports (\<open>Inl\<close>/\<open>Some\<close> is the code
    of the error they throw);
  \<^item> \<open>clock\<close> is the current time, \<open>JSON_parse\<close> the runtime's parser (\<open>None\<close>
    when it throws a \<^verbatim>\<open>SyntaxError\<close>);
  \<^item> \<open>tmpdir\<close> is \<^verbatim>\<open>os.tmpdir()\<close>, and \<open>root\<close> the directory that holds
    \<^verbatim>\<open>scripts/\<close> and \<^verbatim>\<open>packages/\<close>, which the script finds from
    \<^verbatim>\<open>import.meta.url\<close>.
\<close>

record 'w runtime =
  spawnSync :: "string \<Rightarrow> string option \<Rightarrow> 'w \<Rightarrow> child \<times> 'w"
  mkdtemp :: "string \<Rightarrow> 'w \<Rightarrow> (string + string) \<times> 'w"
  readFile :: "string \<Rightarrow> 'w \<Rightarrow> string + string"
  writeFile :: "string \<Rightarrow> string \<Rightarrow> 'w \<Rightarrow> string option \<times> 'w"
  copyFile :: "string \<Rightarrow> string \<Rightarrow> 'w \<Rightarrow> string option \<times> 'w"
  appendFile :: "string \<Rightarrow> string \<Rightarrow> 'w \<Rightarrow> string option \<times> 'w"
  clock :: "'w \<Rightarrow> date"
  JSON_parse :: "string \<Rightarrow> json option"
  tmpdir :: string
  root :: string

record 'w state =
  world :: 'w
  trace :: "event list"

text \<open>How a function call ends: it returns, it throws, or the process exits.\<close>

datatype 'a completion = Normal 'a | Throw js_error | Halt nat

type_synonym ('w, 'a) js = "'w state \<Rightarrow> 'a completion \<times> 'w state"

definition return :: "'a \<Rightarrow> ('w, 'a) js" where
  "return a s = (Normal a, s)"

definition throw :: "js_error \<Rightarrow> ('w, 'a) js" where
  "throw e s = (Throw e, s)"

definition process_exit :: "nat \<Rightarrow> ('w, 'a) js" where
  "process_exit n s = (Halt n, s)"

text \<open>\<open>andThen m f\<close> is \<^verbatim>\<open>const x = m; f(x)\<close>: a throw or an exit in \<open>m\<close> skips \<open>f\<close>.\<close>

definition andThen :: "('w, 'a) js \<Rightarrow> ('a \<Rightarrow> ('w, 'b) js) \<Rightarrow> ('w, 'b) js" where
  "andThen m f s =
     (case m s of
        (Normal a, s') \<Rightarrow> f a s'
      | (Throw e, s') \<Rightarrow> (Throw e, s')
      | (Halt n, s') \<Rightarrow> (Halt n, s'))"

text \<open>\<^verbatim>\<open>try { m } catch (err) { h(err) }\<close>: only a throw reaches the handler.\<close>

definition try_catch :: "('w, 'a) js \<Rightarrow> (js_error \<Rightarrow> ('w, 'a) js) \<Rightarrow> ('w, 'a) js" where
  "try_catch m h s =
     (case m s of
        (Throw e, s') \<Rightarrow> h e s'
      | r \<Rightarrow> r)"

definition emit :: "event \<Rightarrow> 'w state \<Rightarrow> 'w state" where
  "emit e s = s\<lparr>trace := trace s @ [e]\<rparr>"

subsection \<open>Library functions\<close>

definition logger_info :: "string \<Rightarrow> ('w, unit) js" where
  "logger_info msg s = (Normal (), emit (Log Info msg) s)"

definition logger_debug :: "string \<Rightarrow> ('w, unit) js" where
  "logger_debug msg s = (Normal (), emit (Log Debug msg) s)"

definition logger_warn :: "string \<Rightarrow> ('w, unit) js" where
  "logger_warn msg s = (Normal (), emit (Log Warn msg) s)"

definition logger_error :: "string \<Rightarrow> ('w, unit) js" where
  "logger_error msg s = (Normal (), emit (Log Error_level msg) s)"

text \<open>\<^verbatim>\<open>execSync(cmd, opts)\<close>: returns the captured output when the child exits with
  status 0, and throws otherwise.\<close>

definition execSync :: "'w runtime \<Rightarrow> string \<Rightarrow> exec_options \<Rightarrow> ('w, string) js" where
  "execSync rt cmd opts s =
     (let (c, w') = spawnSync rt cmd (cwd opts) (world s);
          s' = emit (ExecSync cmd opts c) (s\<lparr>world := w'\<rparr>);
          out = (if stdio opts = Pipe then stdout c else []);
          err = (if stdio opts = Pipe then stderr c else [])
      in if status c = Some 0 then (Normal out, s')
         else (Throw (ExecError (status c) out err), s'))"

definition mkdtempSync :: "'w runtime \<Rightarrow> string \<Rightarrow> ('w, string) js" where
  "mkdtempSync rt pfx s =
     (let (r, w') = mkdtemp rt pfx (world s);
          s' = emit (MkdtempSync pfx r) (s\<lparr>world := w'\<rparr>)
      in case r of
           Inl code \<Rightarrow> (Throw (SystemError code), s')
         | Inr dir \<Rightarrow> (Normal dir, s'))"

definition readFileSync :: "'w runtime \<Rightarrow> string \<Rightarrow> ('w, string) js" where
  "readFileSync rt path s =
     (let r = readFile rt path (world s);
          s' = emit (ReadFileSync path r) s
      in case r of
           Inl code \<Rightarrow> (Throw (SystemError code), s')
         | Inr text \<Rightarrow> (Normal text, s'))"

definition writeFileSync :: "'w runtime \<Rightarrow> string \<Rightarrow> string \<Rightarrow> ('w, unit) js" where
  "writeFileSync rt path data s =
     (let (r, w') = writeFile rt path data (world s);
          s' = emit (WriteFileSync path data r) (s\<lparr>world := w'\<rparr>)
      in case r of
           Some code \<Rightarrow> (Throw (SystemError code), s')
         | None \<Rightarrow> (Normal (), s'))"

definition copyFileSync :: "'w runtime \<Rightarrow> string \<Rightarrow> string \<Rightarrow> ('w, unit) js" where
  "copyFileSync rt src dest s =
     (let (r, w') = copyFile rt src dest (world s);
          s' = emit (CopyFileSync src dest r) (s\<lparr>world := w'\<rparr>)
      in case r of
           Some code \<Rightarrow> (Throw (SystemError code), s')
         | None \<Rightarrow> (Normal (), s'))"

definition appendFileSync :: "'w runtime \<Rightarrow> string \<Rightarrow> string \<Rightarrow> ('w, unit) js" where
  "appendFileSync rt path data s =
     (let (r, w') = appendFile rt path data (world s);
          s' = emit (AppendFileSync path data r) (s\<lparr>world := w'\<rparr>)
      in case r of
           Some code \<Rightarrow> (Throw (SystemError code), s')
         | None \<Rightarrow> (Normal (), s'))"

definition new_Date :: "'w runtime \<Rightarrow> ('w, date) js" where
  "new_Date rt s = (let d = clock rt (world s) in (Normal d, emit (NewDate d) s))"

text \<open>\<^verbatim>\<open>path.join\<close> of a directory and a plain name.\<close>

definition join :: "string \<Rightarrow> string \<Rightarrow> string" where
  "join dir name = dir @ ''/'' @ name"

text \<open>\<^verbatim>\<open>Array.prototype.join\<close> on an array of strings.\<close>

fun js_join :: "string \<Rightarrow> string list \<Rightarrow> string" where
  "js_join sep [] = []"
| "js_join sep [x] = x"
| "js_join sep (x # y # ys) = x @ sep @ js_join sep (y # ys)"

text \<open>\<^verbatim>\<open>String.prototype.trim\<close>, on the white space of ASCII (space, tab, line feed,
  vertical tab, form feed, carriage return).\<close>

definition is_space :: "char \<Rightarrow> bool" where
  "is_space c = (c \<in> set [CHR 0x20, CHR 0x09, CHR 0x0A, CHR 0x0B, CHR 0x0C, CHR 0x0D])"

definition trim :: "string \<Rightarrow> string" where
  "trim s = rev (dropWhile is_space (rev (dropWhile is_space s)))"

text \<open>\<^verbatim>\<open>s.replace(/[cs]/g, "")\<close> for a character class \<open>cs\<close>: every character of the
  class is removed.\<close>

definition remove_chars :: "string \<Rightarrow> string \<Rightarrow> string" where
  "remove_chars cs s = filter (\<lambda>c. c \<notin> set cs) s"

text \<open>Decimal digits of a number, and \<^verbatim>\<open>padStart\<close>.\<close>

fun string_of_nat :: "nat \<Rightarrow> string" where
  "string_of_nat n =
     (if n < 10 then [''0123456789'' ! n]
      else string_of_nat (n div 10) @ [''0123456789'' ! (n mod 10)])"

definition padStart :: "nat \<Rightarrow> char \<Rightarrow> string \<Rightarrow> string" where
  "padStart n c s = replicate (n - length s) c @ s"

text \<open>\<^verbatim>\<open>Date.prototype.toISOString\<close>: \<^verbatim>\<open>YYYY-MM-DDTHH:mm:ss.sssZ\<close>, where a year
  outside 0..9999 is written with a sign and six digits (ECMAScript's expanded
  years).\<close>

definition toISOString :: "date \<Rightarrow> string" where
  "toISOString d =
     (if 0 \<le> year d \<and> year d \<le> 9999
      then padStart 4 (CHR ''0'') (string_of_nat (nat (year d)))
      else (if year d < 0 then ''-'' else ''+'')
           @ padStart 6 (CHR ''0'') (string_of_nat (nat \<bar>year d\<bar>)))
     @ ''-'' @ padStart 2 (CHR ''0'') (string_of_nat (month d))
     @ ''-'' @ padStart 2 (CHR ''0'') (string_of_nat (day d))
     @ ''T'' @ padStart 2 (CHR ''0'') (string_of_nat (hours d))
     @ '':'' @ padStart 2 (CHR ''0'') (string_of_nat (minutes d))
     @ '':'' @ padStart 2 (CHR ''0'') (string_of_nat (seconds d))
     @ ''.'' @ padStart 3 (CHR ''0'') (string_of_nat (milliseconds d))
     @ ''Z''"

text \<open>\<^verbatim>\<open>value[name]\<close> on a parsed JSON value: an object gives its member (the last
  one of that name, as \<^verbatim>\<open>JSON.parse\<close> keeps it) or \<^verbatim>\<open>undefined\<close> (\<open>None\<close>); any
  other value has no such property.\<close>

definition member :: "string \<Rightarrow> json \<Rightarrow> json option" where
  "member name v =
     (case v of JObject members \<Rightarrow> map_of (rev members) name | _ \<Rightarrow> None)"

text \<open>\<^verbatim>\<open>const { version } = value\<close>: destructuring \<^verbatim>\<open>null\<close> throws a
  \<^verbatim>\<open>TypeError\<close>.\<close>

definition get_version :: "json \<Rightarrow> ('w, json option) js" where
  "get_version v = (if v = JNull then throw TypeError else return (member ''version'' v))"

text \<open>The text a template literal \<^verbatim>\<open>${value}\<close> gives.\<close>

fun ToString :: "json \<Rightarrow> string" where
  "ToString JNull = ''null''"
| "ToString (JBoolean b) = (if b then ''true'' else ''false'')"
| "ToString (JNumber n) = n"
| "ToString (JString s) = s"
| "ToString (JArray xs) =
     js_join '','' (map (\<lambda>x. if x = JNull then [] else ToString x) xs)"
| "ToString (JObject members) = ''[object Object]''"

definition template :: "json option \<Rightarrow> string" where
  "template v = (case v of None \<Rightarrow> ''undefined'' | Some j \<Rightarrow> ToString j)"

subsection \<open>The script\<close>

text \<open>\<^verbatim>\<open>packages["web-features"]\<close> and the pull-request description template, both
  resolved against \<^verbatim>\<open>import.meta.url\<close>.\<close>

definition packages_web_features :: "'w runtime \<Rightarrow> string" where
  "packages_web_features rt = root rt @ ''/packages/web-features''"

definition bodyFile :: "'w runtime \<Rightarrow> string" where
  "bodyFile rt = root rt @ ''/scripts/release-pull-description.md''"

definition run :: "'w runtime \<Rightarrow> string \<Rightarrow> ('w, unit) js" where
  "run rt cmd =
     andThen (execSync rt cmd \<lparr>cwd = None, encoding = None, stdio = Inherit\<rparr>)
       (\<lambda>_. return ())"

definition diffJson :: "'w runtime \<Rightarrow> ('w, string) js" where
  \<open>diffJson rt =
     andThen (mkdtempSync rt (join (tmpdir rt) ''web-features-'')) (\<lambda>temporaryDir.
     andThen (execSync rt ''npm install web-features''
                \<lparr>cwd = Some temporaryDir, encoding = Some ''utf-8'', stdio = Pipe\<rparr>) (\<lambda>_.
     let releasedJson =
           join (join (join temporaryDir ''node_modules'') ''web-features'') ''index.json'' in
     andThen (execSync rt (''jq . "'' @ releasedJson @ ''"'')
                \<lparr>cwd = None, encoding = Some ''utf-8'', stdio = Pipe\<rparr>) (\<lambda>prettyReleasedJson.
     let prettyReleasedJsonFp = join temporaryDir ''index.released.pretty.json'' in
     andThen (writeFileSync rt prettyReleasedJsonFp prettyReleasedJson) (\<lambda>_.
     andThen (execSync rt ''npm run build''
                \<lparr>cwd = None, encoding = None, stdio = Inherit\<rparr>) (\<lambda>_.
     let preparedJson = join (packages_web_features rt) ''index.json'' in
     andThen (execSync rt (''jq . "'' @ preparedJson @ ''"'')
                \<lparr>cwd = None, encoding = Some ''utf-8'', stdio = Pipe\<rparr>) (\<lambda>prettyPreparedJson.
     let prettyPreparedJsonFp = join temporaryDir ''index.prepared.pretty.json'' in
     andThen (writeFileSync rt prettyPreparedJsonFp prettyPreparedJson) (\<lambda>_.
     try_catch
       (execSync rt
          (''diff --unified "'' @ prettyReleasedJsonFp @ ''" "'' @ prettyPreparedJsonFp @ ''"'')
          \<lparr>cwd = None, encoding = Some ''utf-8'', stdio = Pipe\<rparr>)
       (\<lambda>err. case err of
                 ExecError st out _ \<Rightarrow> if st = Some 1 then return out else throw err
               | _ \<Rightarrow> throw err))))))))\<close>

record args =
  semverlevel :: string

definition init :: "'w runtime \<Rightarrow> args \<Rightarrow> ('w, unit) js" where
  \<open>init rt args =
     andThen (logger_info ''Running preflight checks'') (\<lambda>_.
     andThen (logger_info ''Checking base branch'') (\<lambda>_.
     let headCmd = ''git rev-parse --abbrev-ref HEAD'' in
     andThen (logger_debug headCmd) (\<lambda>_.
     andThen (execSync rt headCmd
                \<lparr>cwd = None, encoding = Some ''utf-8'', stdio = Pipe\<rparr>) (\<lambda>out.
     let head = trim out in
     andThen (if head \<noteq> ''main'' then logger_warn ''Base banch is not main''
              else return ()) (\<lambda>_.
     andThen (logger_info ''Confirming gh CLI is installed and authorized'') (\<lambda>_.
     let ghVersionCmd = ''gh version'' in
     andThen (try_catch
                (andThen (logger_debug ghVersionCmd) (\<lambda>_.
                 andThen (execSync rt ghVersionCmd
                            \<lparr>cwd = None, encoding = None, stdio = Pipe\<rparr>) (\<lambda>_.
                 return ())))
                (\<lambda>err.
                 andThen (logger_error ''gh CLI failed to run. Do you have it installed?'') (\<lambda>_.
                 process_exit 1))) (\<lambda>_.
     let ghAuthStatus = ''gh auth status'' in
     andThen (try_catch
                (andThen (logger_debug ghAuthStatus) (\<lambda>_.
                 run rt ghAuthStatus))
                (\<lambda>err.
                 andThen (logger_error
                   ''`gh auth status` was non-zero. Try running `gh auth login` or `gh auth refresh` and try again.'') (\<lambda>_.
                 andThen (logger_error
                   (case err of ExecError _ _ e \<Rightarrow> e | _ \<Rightarrow> ''undefined'')) (\<lambda>_.
                 process_exit 1)))) (\<lambda>_.
     andThen (logger_info ''Confirming jq is installed'') (\<lambda>_.
     let jqVersionCmd = ''jq --version'' in
     andThen (try_catch
                (andThen (logger_debug jqVersionCmd) (\<lambda>_.
                 andThen (execSync rt jqVersionCmd
                            \<lparr>cwd = None, encoding = None, stdio = Pipe\<rparr>) (\<lambda>_.
                 return ())))
                (\<lambda>err.
                 andThen (logger_error ''jq failed to run. Do you have it installed?'') (\<lambda>_.
                 process_exit 1))) (\<lambda>_.
     andThen (diffJson rt) (\<lambda>diff.
     andThen (new_Date rt) (\<lambda>now.
     let releaseBranch = ''release-'' @ remove_chars ''-T:.Z'' (toISOString now) in
     andThen (logger_info (''Starting release branch '' @ releaseBranch)) (\<lambda>_.
     let branchCmd = ''git branch '' @ releaseBranch @ '' '' @ head in
     andThen (run rt branchCmd) (\<lambda>_.
     andThen (logger_info (''Checking out release branch '' @ releaseBranch)) (\<lambda>_.
     let checkoutCmd = ''git checkout '' @ releaseBranch in
     andThen (logger_debug checkoutCmd) (\<lambda>_.
     andThen (execSync rt checkoutCmd
                \<lparr>cwd = None, encoding = None, stdio = Pipe\<rparr>) (\<lambda>_.
     let bumpCmd = ''npm version --no-git-tag-version '' @ semverlevel args in
     andThen (logger_info ''Bumping version number'') (\<lambda>_.
     andThen (logger_debug bumpCmd) (\<lambda>_.
     andThen (execSync rt bumpCmd
                \<lparr>cwd = Some (packages_web_features rt), encoding = None, stdio = Inherit\<rparr>) (\<lambda>_.
     andThen (readFileSync rt (join (packages_web_features rt) ''package.json'')) (\<lambda>manifest.
     andThen (case JSON_parse rt manifest of
                None \<Rightarrow> throw SyntaxError
              | Some parsed \<Rightarrow> get_version parsed) (\<lambda>version.
     andThen (readFileSync rt (join (packages_web_features rt) ''package.json'')) (\<lambda>manifest'.
     andThen (logger_debug manifest') (\<lambda>_.
     andThen (logger_info ''Committing version bump'') (\<lambda>_.
     let commitMessage =
           ''Increment '' @ semverlevel args @ '' version to v'' @ template version in
     let commitCmd = ''git commit --all --message="'' @ commitMessage @ ''"'' in
     andThen (run rt commitCmd) (\<lambda>_.
     andThen (logger_info ''Pushing release branch'') (\<lambda>_.
     let pushCmd = ''git push --set-upstream origin '' @ releaseBranch in
     andThen (run rt pushCmd) (\<lambda>_.
     andThen (logger_info (''Creating PR for '' @ template version)) (\<lambda>_.
     let title =
           [CHR 0xF0, CHR 0x9F, CHR 0x93, CHR 0xA6] @ '' Release web-features@''
           @ template version in
     let reviewer = ''ddbeck'' in
     andThen (mkdtempSync rt (join (tmpdir rt) ''pull-request-'')) (\<lambda>temporaryDir.
     let temporaryBodyFile = join temporaryDir ''body.md'' in
     andThen (copyFileSync rt (bodyFile rt) temporaryBodyFile) (\<lambda>_.
     andThen (appendFileSync rt temporaryBodyFile
                (js_join ''\<newline>'' [''```diff'', diff, ''```''])) (\<lambda>_.
     let pullRequestCmd =
           js_join '' ''
             [''gh pr create'',
              ''--title="'' @ title @ ''"'',
              ''--reviewer="'' @ reviewer @ ''"'',
              ''--body-file='' @ temporaryBodyFile,
              ''--repo="ddbeck/feature-set"'',
              ''--base="main"'',
              ''--head="'' @ releaseBranch @ ''"''] in
     run rt pullRequestCmd))))))))))))))))))))))))))))))))\<close>

text \<open>\<^verbatim>\<open>update\<close> and \<^verbatim>\<open>publish\<close> only throw.\<close>

definition update :: "'w runtime \<Rightarrow> 'a \<Rightarrow> ('w, unit) js" where
  "update rt args = throw (Error ''Not implemented'')"

definition publish :: "'w runtime \<Rightarrow> 'a \<Rightarrow> ('w, unit) js" where
  "publish rt args = throw (Error ''Not implemented'')"


section \<open>Stating and proving properties of a run\<close>

subsection \<open>Reading a trace\<close>

text \<open>The commands a run executed, in order.\<close>

definition exec_cmds :: "event list \<Rightarrow> string list" where
  "exec_cmds evs = concat (map (\<lambda>e. case e of ExecSync cmd _ _ \<Rightarrow> [cmd] | _ \<Rightarrow> []) evs)"

text \<open>\<open>in_order xs ys\<close>: the events \<open>xs\<close> occur in \<open>ys\<close>, in this order.\<close>

fun in_order :: "'a list \<Rightarrow> 'a list \<Rightarrow> bool" where
  "in_order [] ys = True"
| "in_order (x # xs) [] = False"
| "in_order (x # xs) (y # ys) = (if x = y then in_order xs ys else in_order (x # xs) ys)"

definition digits_only :: "string \<Rightarrow> bool" where
  "digits_only s = list_all (\<lambda>c. c \<in> set ''0123456789'') s"

text \<open>The branch name in a command \<^verbatim>\<open>git branch <name> <head>\<close>.\<close>

definition branch_of :: "string \<Rightarrow> string" where
  "branch_of cmd = takeWhile (\<lambda>c. c \<noteq> CHR '' '') (drop 11 cmd)"

subsection \<open>An example environment\<close>


subsection \<open>Weakest preconditions\<close>


text \<open>Names for the long string literals of the script. A proof folds the literals
  into these names while it walks through the script, and unfolds the few it compares.\<close>

definition msg_preflight :: string where "msg_preflight = ''Running preflight checks''"
definition msg_base :: string where "msg_base = ''Checking base branch''"
definition msg_not_main :: string where "msg_not_main = ''Base banch is not main''"
definition msg_gh :: string where "msg_gh = ''Confirming gh CLI is installed and authorized''"
definition msg_gh_failed :: string where
  "msg_gh_failed = ''gh CLI failed to run. Do you have it installed?''"
definition msg_auth_failed :: string where
  "msg_auth_failed = ''`gh auth status` was non-zero. Try running `gh auth login` or `gh auth refresh` and try again.''"
definition msg_jq :: string where "msg_jq = ''Confirming jq is installed''"
definition msg_jq_failed :: string where
  "msg_jq_failed = ''jq failed to run. Do you have it installed?''"
definition msg_starting :: string where "msg_starting = ''Starting release branch ''"
definition msg_checkout :: string where "msg_checkout = ''Checking out release branch ''"
definition msg_bump :: string where "msg_bump = ''Bumping version number''"
definition msg_commit :: string where "msg_commit = ''Committing version bump''"
definition msg_push :: string where "msg_push = ''Pushing release branch''"
definition msg_pr :: string where "msg_pr = ''Creating PR for ''"




lemmas msg_defs =
  msg_preflight_def msg_base_def msg_not_main_def msg_gh_def msg_gh_failed_def
  msg_auth_failed_def msg_jq_def msg_jq_failed_def msg_starting_def msg_checkout_def
  msg_bump_def msg_commit_def msg_push_def msg_pr_def



subsection \<open>Rules\<close>



























section \<open>The release diff producer\<close>




section \<open>update and publish\<close>

text \<open>
  C5. Whatever the argument, \<^verbatim>\<open>update\<close> and \<^verbatim>\<open>publish\<close> throw
  \<^verbatim>\<open>Error("Not implemented")\<close> and leave the state as it was: the world is unchanged and
  the trace has no new entry, so no command was run and no file was written.
\<close>

theorem not_implemented:
  "update rt args s = (Throw (Error ''Not implemented''), s) \<and>
   publish rt args' s = (Throw (Error ''Not implemented''), s)"
  by (simp add: update_def publish_def throw_def)

end
